theory Spec2Isabelle
  imports Complex_Main "HOL-Library.Sublist" "HOL-Library.Log_Nat"
begin

section \<open>Open Location Code: the codec core of pluscodes\<close>

text \<open>
  The development embeds the \<^verbatim>\<open>OpenLocationCode\<close> module of
  \<^verbatim>\<open>src/compressed.js\<close> (lines 2176--2826): the validators \<^verbatim>\<open>isValid\<close>,
  \<^verbatim>\<open>isShort\<close>, \<^verbatim>\<open>isFull\<close>, the codec \<^verbatim>\<open>encode\<close>, \<^verbatim>\<open>decode\<close>, and
  \<^verbatim>\<open>shorten\<close>, \<^verbatim>\<open>recoverNearest\<close> with their private helpers.

  \<^item> A JavaScript string is a \<^typ>\<open>string\<close>; its characters are restricted to
    the 8-bit characters of HOL, which cover every character the codec accepts.
  \<^item> A thrown exception is a value \<open>Inl e\<close> of \<open>error + 'a\<close>.
  \<^item> String positions and lengths are \<^typ>\<open>int\<close>, since \<^verbatim>\<open>indexOf\<close> answers \<open>-1\<close>.
\<close>

subsection \<open>String primitives of the host language\<close>

text \<open>\<^verbatim>\<open>s.indexOf(t)\<close>: the first position at which \<open>t\<close> occurs in \<open>s\<close>, or \<open>-1\<close>.
  The empty needle occurs at position 0.\<close>

fun indexOf :: "string \<Rightarrow> string \<Rightarrow> int" where
  "indexOf [] t = (if t = [] then 0 else - 1)"
| "indexOf (x # xs) t =
     (if prefix t (x # xs) then 0
      else (let i = indexOf xs t in if i < 0 then - 1 else i + 1))"

text \<open>\<^verbatim>\<open>s.lastIndexOf(t)\<close>: the last position at which \<open>t\<close> occurs, or \<open>-1\<close>.\<close>

fun lastIndexOf :: "string \<Rightarrow> string \<Rightarrow> int" where
  "lastIndexOf [] t = (if t = [] then 0 else - 1)"
| "lastIndexOf (x # xs) t =
     (let i = lastIndexOf xs t in
      if 0 \<le> i then i + 1 else if prefix t (x # xs) then 0 else - 1)"

text \<open>\<^verbatim>\<open>s.charAt(i)\<close>: the one-character string at position \<open>i\<close>, the empty
  string out of range.\<close>

definition charAt :: "string \<Rightarrow> int \<Rightarrow> string" where
  "charAt s i = (if 0 \<le> i \<and> i < int (length s) then [s ! nat i] else [])"

text \<open>\<^verbatim>\<open>s.toUpperCase()\<close> on the characters the model has: the letters a--z.\<close>

definition toUpperChar :: "char \<Rightarrow> char" where
  "toUpperChar c =
     (case map_of (zip ''abcdefghijklmnopqrstuvwxyz'' ''ABCDEFGHIJKLMNOPQRSTUVWXYZ'') c of
        Some u \<Rightarrow> u
      | None \<Rightarrow> c)"

definition toUpperCase :: "string \<Rightarrow> string" where
  "toUpperCase s = map toUpperChar s"

text \<open>\<^verbatim>\<open>s.match(/(c+)/g)\<close>: all maximal runs of the character \<open>c\<close>, left to
  right (the host answers \<^verbatim>\<open>null\<close> for no match; here the empty list).\<close>

fun matchRunsFrom :: "char \<Rightarrow> string \<Rightarrow> string \<Rightarrow> string list" where
  "matchRunsFrom c run [] = (if run = [] then [] else [run])"
| "matchRunsFrom c run (x # xs) =
     (if x = c then matchRunsFrom c (run @ [x]) xs
      else if run = [] then matchRunsFrom c [] xs
      else run # matchRunsFrom c [] xs)"

definition matchRuns :: "char \<Rightarrow> string \<Rightarrow> string list" where
  "matchRuns c s = matchRunsFrom c [] s"

text \<open>\<^verbatim>\<open>s.replace(/c+/, '')\<close>: the first maximal run of \<open>c\<close> removed.\<close>

fun removeFirstRun :: "char \<Rightarrow> string \<Rightarrow> string" where
  "removeFirstRun c [] = []"
| "removeFirstRun c (x # xs) =
     (if x = c then dropWhile (\<lambda>y. y = c) xs else x # removeFirstRun c xs)"

text \<open>\<^verbatim>\<open>s.replace(c, '')\<close> with a string pattern: the first occurrence removed.\<close>

fun removeFirst :: "char \<Rightarrow> string \<Rightarrow> string" where
  "removeFirst c [] = []"
| "removeFirst c (x # xs) = (if x = c then xs else x # removeFirst c xs)"

text \<open>\<^verbatim>\<open>s.substring(a)\<close>, \<^verbatim>\<open>s.substring(0, b)\<close> and \<^verbatim>\<open>s.substr(0, n)\<close>; a negative
  bound counts as 0.\<close>

definition substringFrom :: "string \<Rightarrow> int \<Rightarrow> string" where
  "substringFrom s a = drop (nat a) s"

definition substringTo :: "string \<Rightarrow> int \<Rightarrow> string" where
  "substringTo s b = take (nat b) s"

subsection \<open>Constants\<close>

definition SEPARATOR :: string where "SEPARATOR = ''+''"
definition SEPARATOR_POSITION :: int where "SEPARATOR_POSITION = 8"
definition PADDING_CHARACTER :: string where "PADDING_CHARACTER = ''0''"
definition CODE_ALPHABET :: string where "CODE_ALPHABET = ''23456789CFGHJMPQRVWX''"
definition ENCODING_BASE :: int where "ENCODING_BASE = int (length CODE_ALPHABET)"
definition LATITUDE_MAX :: int where "LATITUDE_MAX = 90"
definition LONGITUDE_MAX :: int where "LONGITUDE_MAX = 180"
definition PAIR_CODE_LENGTH :: int where "PAIR_CODE_LENGTH = 10"
definition GRID_COLUMNS :: int where "GRID_COLUMNS = 4"
definition GRID_ROWS :: int where "GRID_ROWS = 5"
definition MIN_TRIMMABLE_CODE_LEN :: int where "MIN_TRIMMABLE_CODE_LEN = 6"

subsection \<open>Validators\<close>

text \<open>The final loop of \<^verbatim>\<open>isValid\<close>: every character, upper-cased, is the
  separator or a member of the alphabet.\<close>

definition validChars :: "string \<Rightarrow> bool" where
  "validChars code =
     list_all (\<lambda>c. \<not> ([toUpperChar c] \<noteq> SEPARATOR \<and> indexOf CODE_ALPHABET [toUpperChar c] = - 1)) code"

definition isValid :: "string \<Rightarrow> bool" where
  "isValid code =
     (if code = [] then False
      else if indexOf code SEPARATOR = - 1 then False
      else if indexOf code SEPARATOR \<noteq> lastIndexOf code SEPARATOR then False
      else if indexOf code SEPARATOR > SEPARATOR_POSITION \<or> indexOf code SEPARATOR mod 2 = 1
        then False
      else if indexOf code PADDING_CHARACTER > - 1 \<and>
          (indexOf code PADDING_CHARACTER = 0 \<or>
           (case matchRuns (CHR ''0'') code of
              [] \<Rightarrow> True
            | m # ms \<Rightarrow> int (length (m # ms)) > 1 \<or> int (length m) mod 2 = 1 \<or>
                 int (length m) > SEPARATOR_POSITION - 2) \<or>
           charAt code (int (length code) - 1) \<noteq> SEPARATOR)
        then False
      else if int (length code) - indexOf code SEPARATOR - 1 = 1 then False
      else validChars (removeFirstRun (CHR ''0'') (removeFirstRun (CHR ''+'') code)))"

definition isShort :: "string \<Rightarrow> bool" where
  "isShort code =
     (if \<not> isValid code then False
      else if indexOf code SEPARATOR \<ge> 0 \<and> indexOf code SEPARATOR < SEPARATOR_POSITION then True
      else False)"

definition isFull :: "string \<Rightarrow> bool" where
  "isFull code =
     (if \<not> isValid code then False
      else if isShort code then False
      else if indexOf CODE_ALPHABET (toUpperCase (charAt code 0)) * ENCODING_BASE
                \<ge> LATITUDE_MAX * 2 then False
      else if int (length code) > 1 \<and>
              indexOf CODE_ALPHABET (toUpperCase (charAt code 1)) * ENCODING_BASE
                \<ge> LONGITUDE_MAX * 2 then False
      else True)"

subsection \<open>Numbers\<close>

text \<open>
  A JavaScript number is an IEEE 754 binary64 value. The model computes on
  \<^typ>\<open>real\<close> and passes the result of every arithmetic operation of the source
  through a rounding function \<open>rd\<close>, the first parameter of every numeric
  definition below:
  \<^item> \<open>rd = roundDouble\<close> is round-to-nearest, ties-to-even, onto the binary64
    grid: the arithmetic the program runs on;
  \<^item> \<open>rd = id\<close> is exact arithmetic, the idealisation in which the algorithm is
    usually explained.
  Inputs are finite numbers. \<^verbatim>\<open>Math.floor\<close>, \<^verbatim>\<open>Math.min\<close>, \<^verbatim>\<open>Math.max\<close>,
  \<^verbatim>\<open>Math.abs\<close> and \<^verbatim>\<open>%\<close> are exact in binary64 and carry no rounding.
  \<^verbatim>\<open>Math.pow\<close> is taken as correctly rounded.

  The program leaves the finite numbers in two places, both at code lengths far
  above 400:
  \<^item> the grid loop of the encoder divides by a place value, which binary64
    underflows to zero after some 458 turns; the quotient is then an infinity
    or NaN. The loop is modelled on the type \<open>jsNumber\<close> below, which has these
    values;
  \<^item> \<^verbatim>\<open>computeLatitudePrecision\<close> computes \<^verbatim>\<open>Math.pow(5, codeLength - 10)\<close>,
    which overflows to Infinity from the length 452 on, and the precision is then
    0 where the model has a positive number below \<open>2\<^sup>-\<^sup>1\<^sup>0\<^sup>0\<^sup>0\<close>. The precision is
    only ever subtracted from 90, and the rounded difference is 90 either way.
  Every other division is by a constant that is not zero under \<open>roundDouble\<close>
  and under \<open>id\<close>.
\<close>

type_synonym rounding = "real \<Rightarrow> real"

text \<open>The binary exponent \<open>\<lfloor>log\<^sub>2 \<bar>x\<bar>\<rfloor>\<close> of a nonzero number.\<close>

definition binExp :: "real \<Rightarrow> int" where
  "binExp x = (if \<bar>x\<bar> \<ge> 1 then bitlen \<lfloor>\<bar>x\<bar>\<rfloor> - 1 else - bitlen (\<lceil>1 / \<bar>x\<bar>\<rceil> - 1))"

text \<open>Rounding onto binary64: 53 significant bits, least exponent \<open>-1022\<close>
  (below it the spacing stays \<open>2\<^sup>-\<^sup>1\<^sup>0\<^sup>7\<^sup>4\<close>), nearest value, ties to the even
  significand.\<close>

definition roundDouble :: rounding where
  "roundDouble x =
     (if x = 0 then 0
      else (let q = 2 powi (max (binExp x) (- 1022) - 52);
                m = x / q;
                f = \<lfloor>m\<rfloor>;
                n = (if m - of_int f < 1 / 2 then f
                     else if m - of_int f > 1 / 2 then f + 1
                     else if even f then f else f + 1)
            in of_int n * q))"

text \<open>\<^verbatim>\<open>a % b\<close>: the remainder of the truncated division, with the sign of \<open>a\<close>.\<close>

definition jsRem :: "real \<Rightarrow> real \<Rightarrow> real" where
  "jsRem a b = a - b * of_int (if a / b \<ge> 0 then \<lfloor>a / b\<rfloor> else \<lceil>a / b\<rceil>)"

text \<open>\<^verbatim>\<open>PAIR_RESOLUTIONS_ = [20.0, 1.0, .05, .0025, .000125]\<close> and
  \<^verbatim>\<open>GRID_SIZE_DEGREES_ = 0.000125\<close>: decimal literals, rounded as the host reads
  them.\<close>

definition PAIR_RESOLUTIONS :: "rounding \<Rightarrow> real list" where
  "PAIR_RESOLUTIONS rd = [rd 20, rd 1, rd (5 / 100), rd (25 / 10000), rd (125 / 1000000)]"

definition GRID_SIZE_DEGREES :: "rounding \<Rightarrow> real" where
  "GRID_SIZE_DEGREES rd = rd (125 / 1000000)"

text \<open>\<^verbatim>\<open>PAIR_RESOLUTIONS_[i]\<close>. Out of range the source reads \<^verbatim>\<open>undefined\<close> and
  computes NaN from it; the model reads 0 there. No call below leaves the range:
  the encoder is called with at most 10 digits and the decoder with at least 2
  and at most 10.\<close>

definition pairResolution :: "rounding \<Rightarrow> int \<Rightarrow> real" where
  "pairResolution rd i =
     (if 0 \<le> i \<and> i < int (length (PAIR_RESOLUTIONS rd)) then PAIR_RESOLUTIONS rd ! nat i else 0)"

subsection \<open>Numbers that are not finite\<close>

text \<open>A value of the grid loop of the encoder: a finite number, one of the two
  infinities, or NaN. The operations below are those of the loop body, by the
  rules of IEEE 754. Their second operand is a place value or the constant
  \<^verbatim>\<open>GRID_COLUMNS_\<close>: a finite number that is never negative, so a zero divisor
  is \<open>+0\<close>.\<close>

datatype jsNumber = Number real | PlusInfinity | MinusInfinity | NaN

text \<open>\<^verbatim>\<open>x / d\<close>: a nonzero number divided by zero is the infinity of its sign,
  zero divided by zero is NaN.\<close>

fun numDivide :: "rounding \<Rightarrow> jsNumber \<Rightarrow> real \<Rightarrow> jsNumber" where
  "numDivide rd (Number x) d =
     (if d = 0 then (if x > 0 then PlusInfinity else if x < 0 then MinusInfinity else NaN)
      else Number (rd (x / d)))"
| "numDivide rd PlusInfinity d = PlusInfinity"
| "numDivide rd MinusInfinity d = MinusInfinity"
| "numDivide rd NaN d = NaN"

text \<open>\<^verbatim>\<open>Math.floor(x)\<close>.\<close>

fun numFloor :: "jsNumber \<Rightarrow> jsNumber" where
  "numFloor (Number x) = Number (of_int \<lfloor>x\<rfloor>)"
| "numFloor PlusInfinity = PlusInfinity"
| "numFloor MinusInfinity = MinusInfinity"
| "numFloor NaN = NaN"

text \<open>\<^verbatim>\<open>x * d\<close>: an infinity times zero is NaN.\<close>

fun numTimes :: "rounding \<Rightarrow> jsNumber \<Rightarrow> real \<Rightarrow> jsNumber" where
  "numTimes rd (Number x) d = Number (rd (x * d))"
| "numTimes rd PlusInfinity d = (if d = 0 then NaN else PlusInfinity)"
| "numTimes rd MinusInfinity d = (if d = 0 then NaN else MinusInfinity)"
| "numTimes rd NaN d = NaN"

text \<open>\<^verbatim>\<open>x + y\<close> and \<^verbatim>\<open>x - y\<close>: NaN is absorbing, and so is the sum of the two
  opposite infinities.\<close>

fun numPlus :: "rounding \<Rightarrow> jsNumber \<Rightarrow> jsNumber \<Rightarrow> jsNumber" where
  "numPlus rd (Number x) (Number y) = Number (rd (x + y))"
| "numPlus rd (Number x) PlusInfinity = PlusInfinity"
| "numPlus rd (Number x) MinusInfinity = MinusInfinity"
| "numPlus rd (Number x) NaN = NaN"
| "numPlus rd PlusInfinity (Number y) = PlusInfinity"
| "numPlus rd PlusInfinity PlusInfinity = PlusInfinity"
| "numPlus rd PlusInfinity MinusInfinity = NaN"
| "numPlus rd PlusInfinity NaN = NaN"
| "numPlus rd MinusInfinity (Number y) = MinusInfinity"
| "numPlus rd MinusInfinity PlusInfinity = NaN"
| "numPlus rd MinusInfinity MinusInfinity = MinusInfinity"
| "numPlus rd MinusInfinity NaN = NaN"
| "numPlus rd NaN y = NaN"

fun numMinus :: "rounding \<Rightarrow> jsNumber \<Rightarrow> jsNumber \<Rightarrow> jsNumber" where
  "numMinus rd (Number x) (Number y) = Number (rd (x - y))"
| "numMinus rd (Number x) PlusInfinity = MinusInfinity"
| "numMinus rd (Number x) MinusInfinity = PlusInfinity"
| "numMinus rd (Number x) NaN = NaN"
| "numMinus rd PlusInfinity (Number y) = PlusInfinity"
| "numMinus rd PlusInfinity PlusInfinity = NaN"
| "numMinus rd PlusInfinity MinusInfinity = PlusInfinity"
| "numMinus rd PlusInfinity NaN = NaN"
| "numMinus rd MinusInfinity (Number y) = MinusInfinity"
| "numMinus rd MinusInfinity PlusInfinity = MinusInfinity"
| "numMinus rd MinusInfinity MinusInfinity = NaN"
| "numMinus rd MinusInfinity NaN = NaN"
| "numMinus rd NaN y = NaN"

text \<open>\<^verbatim>\<open>s.charAt(x)\<close> for a number: the position is \<open>x\<close> truncated to an integer,
  0 for NaN; at an infinity it is out of range.\<close>

fun charAtNumber :: "string \<Rightarrow> jsNumber \<Rightarrow> string" where
  "charAtNumber s (Number x) = charAt s (if x \<ge> 0 then \<lfloor>x\<rfloor> else \<lceil>x\<rceil>)"
| "charAtNumber s PlusInfinity = []"
| "charAtNumber s MinusInfinity = []"
| "charAtNumber s NaN = charAt s 0"

subsection \<open>Errors and the decoded area\<close>

text \<open>The thrown strings of the source, one constructor for each \<^verbatim>\<open>throw\<close>:
  the length check of \<^verbatim>\<open>encode\<close>, the full-code check of \<^verbatim>\<open>decode\<close>, the
  check of \<^verbatim>\<open>recoverNearest\<close>, and the three checks of \<^verbatim>\<open>shorten\<close>.\<close>

datatype error =
    InvalidLength
  | DecodeNotFull
  | RecoverNotValid
  | ShortenNotFull
  | ShortenPadded
  | ShortenTooShort

record CodeArea =
  latitudeLo :: real
  longitudeLo :: real
  latitudeHi :: real
  longitudeHi :: real
  codeLength :: int
  latitudeCenter :: real
  longitudeCenter :: real

text \<open>The constructor \<^verbatim>\<open>CodeArea.fn.init\<close>.\<close>

definition mkCodeArea :: "rounding \<Rightarrow> real \<Rightarrow> real \<Rightarrow> real \<Rightarrow> real \<Rightarrow> int \<Rightarrow> CodeArea" where
  "mkCodeArea rd latLo lngLo latHi lngHi len =
     \<lparr> latitudeLo = latLo, longitudeLo = lngLo, latitudeHi = latHi, longitudeHi = lngHi,
       codeLength = len,
       latitudeCenter = min (rd (latLo + rd (rd (latHi - latLo) / 2))) (of_int LATITUDE_MAX),
       longitudeCenter = min (rd (lngLo + rd (rd (lngHi - lngLo) / 2))) (of_int LONGITUDE_MAX) \<rparr>"

subsection \<open>Coordinate normalisation\<close>

definition clipLatitude :: "real \<Rightarrow> real" where
  "clipLatitude latitude = min 90 (max (- 90) latitude)"

definition computeLatitudePrecision :: "rounding \<Rightarrow> int \<Rightarrow> real" where
  "computeLatitudePrecision rd len =
     (if len \<le> 10 then rd (20 powi \<lfloor>rd (rd (of_int len / (- 2)) + 2)\<rfloor>)
      else rd (rd (20 powi (- 3)) / rd (of_int GRID_ROWS powi (len - 10))))"

text \<open>The two \<^verbatim>\<open>while\<close> statements of \<^verbatim>\<open>normalizeLongitude\<close>. Under rounding a step
  may leave a large number unchanged, so a loop need not end: the result is
  \<open>None\<close> when the source does not return.\<close>

partial_function (option) normalizeLongitudeUp :: "rounding \<Rightarrow> real \<Rightarrow> real option" where
  "normalizeLongitudeUp rd longitude =
     (if longitude < - 180 then normalizeLongitudeUp rd (rd (longitude + 360))
      else Some longitude)"

partial_function (option) normalizeLongitudeDown :: "rounding \<Rightarrow> real \<Rightarrow> real option" where
  "normalizeLongitudeDown rd longitude =
     (if longitude \<ge> 180 then normalizeLongitudeDown rd (rd (longitude - 360))
      else Some longitude)"

definition normalizeLongitude :: "rounding \<Rightarrow> real \<Rightarrow> real option" where
  "normalizeLongitude rd longitude =
     Option.bind (normalizeLongitudeUp rd longitude) (normalizeLongitudeDown rd)"

subsection \<open>Pair and grid encoders\<close>

text \<open>The \<^verbatim>\<open>while\<close> loop of \<^verbatim>\<open>encodePairs\<close>; each turn emits a latitude digit
  and a longitude digit.\<close>

function encodePairsLoop ::
  "rounding \<Rightarrow> int \<Rightarrow> string \<times> real \<times> real \<times> int \<Rightarrow> string" where
  "encodePairsLoop rd len (code, adjustedLatitude, adjustedLongitude, digitCount) =
     (if digitCount < len then
        (let placeValue = pairResolution rd (digitCount div 2);
             latDigit = \<lfloor>rd (adjustedLatitude / placeValue)\<rfloor>;
             adjustedLatitude' = rd (adjustedLatitude - rd (of_int latDigit * placeValue));
             code1 = code @ charAt CODE_ALPHABET latDigit;
             lngDigit = \<lfloor>rd (adjustedLongitude / placeValue)\<rfloor>;
             adjustedLongitude' = rd (adjustedLongitude - rd (of_int lngDigit * placeValue));
             code2 = code1 @ charAt CODE_ALPHABET lngDigit;
             digitCount' = digitCount + 1 + 1;
             code3 = (if digitCount' = SEPARATOR_POSITION \<and> digitCount' < len
                      then code2 @ SEPARATOR else code2)
         in encodePairsLoop rd len (code3, adjustedLatitude', adjustedLongitude', digitCount'))
      else code)"
  by pat_completeness auto
termination
  by (relation "measure (\<lambda>(rd, len, code, lat, lng, digitCount). nat (len - digitCount))") auto

definition encodePairs :: "rounding \<Rightarrow> real \<Rightarrow> real \<Rightarrow> int \<Rightarrow> string" where
  "encodePairs rd latitude longitude len =
     (let code = encodePairsLoop rd len
                   ([], rd (latitude + of_int LATITUDE_MAX), rd (longitude + of_int LONGITUDE_MAX), 0);
          code' = (if int (length code) < SEPARATOR_POSITION
                   then code @ replicate (nat (SEPARATOR_POSITION - int (length code))) (CHR ''0'')
                   else code)
      in if int (length code') = SEPARATOR_POSITION then code' @ SEPARATOR else code')"

text \<open>The \<^verbatim>\<open>for\<close> loop of \<^verbatim>\<open>encodeGrid\<close>, by the number of turns left. The
  two adjusted coordinates, \<^verbatim>\<open>row\<close> and \<^verbatim>\<open>col\<close> are \<open>jsNumber\<close>s; the place
  values stay finite.\<close>

fun encodeGridLoop ::
  "rounding \<Rightarrow> nat \<Rightarrow> string \<times> jsNumber \<times> jsNumber \<times> real \<times> real \<Rightarrow> string" where
  "encodeGridLoop rd 0 (code, adjustedLatitude, adjustedLongitude, latPlaceValue, lngPlaceValue) = code"
| "encodeGridLoop rd (Suc n) (code, adjustedLatitude, adjustedLongitude, latPlaceValue, lngPlaceValue) =
     (let row = numFloor (numDivide rd adjustedLatitude (rd (latPlaceValue / of_int GRID_ROWS)));
          col = numFloor (numDivide rd adjustedLongitude (rd (lngPlaceValue / of_int GRID_COLUMNS)));
          latPlaceValue' = rd (latPlaceValue / of_int GRID_ROWS);
          lngPlaceValue' = rd (lngPlaceValue / of_int GRID_COLUMNS);
          adjustedLatitude' = numMinus rd adjustedLatitude (numTimes rd row latPlaceValue');
          adjustedLongitude' = numMinus rd adjustedLongitude (numTimes rd col lngPlaceValue')
      in encodeGridLoop rd n
           (code @ charAtNumber CODE_ALPHABET
                     (numPlus rd (numTimes rd row (of_int GRID_COLUMNS)) col),
            adjustedLatitude', adjustedLongitude', latPlaceValue', lngPlaceValue'))"

definition encodeGrid :: "rounding \<Rightarrow> real \<Rightarrow> real \<Rightarrow> int \<Rightarrow> string" where
  "encodeGrid rd latitude longitude len =
     encodeGridLoop rd (nat len)
       ([], Number (jsRem (rd (latitude + of_int LATITUDE_MAX)) (GRID_SIZE_DEGREES rd)),
            Number (jsRem (rd (longitude + of_int LONGITUDE_MAX)) (GRID_SIZE_DEGREES rd)),
        GRID_SIZE_DEGREES rd, GRID_SIZE_DEGREES rd)"

subsection \<open>Pair and grid decoders\<close>

function decodePairsSequenceLoop ::
  "rounding \<Rightarrow> string \<Rightarrow> int \<Rightarrow> int \<times> real \<Rightarrow> int \<times> real" where
  "decodePairsSequenceLoop rd code offset (i, v) =
     (if i * 2 + offset < int (length code) then
        decodePairsSequenceLoop rd code offset
          (i + 1,
           rd (v + rd (of_int (indexOf CODE_ALPHABET (charAt code (i * 2 + offset)))
                        * pairResolution rd i)))
      else (i, v))"
  by pat_completeness auto
termination
  by (relation "measure (\<lambda>(rd, code, offset, i, v). nat (int (length code) - offset - i * 2))") auto

definition decodePairsSequence :: "rounding \<Rightarrow> string \<Rightarrow> int \<Rightarrow> real \<times> real" where
  "decodePairsSequence rd code offset =
     (let (i, v) = decodePairsSequenceLoop rd code offset (0, 0)
      in (v, rd (v + pairResolution rd (i - 1))))"

definition decodePairs :: "rounding \<Rightarrow> string \<Rightarrow> CodeArea" where
  "decodePairs rd code =
     (let latitude = decodePairsSequence rd code 0;
          longitude = decodePairsSequence rd code 1
      in mkCodeArea rd
           (rd (fst latitude - of_int LATITUDE_MAX))
           (rd (fst longitude - of_int LONGITUDE_MAX))
           (rd (snd latitude - of_int LATITUDE_MAX))
           (rd (snd longitude - of_int LONGITUDE_MAX))
           (int (length code)))"

text \<open>The \<^verbatim>\<open>while\<close> loop of \<^verbatim>\<open>decodeGrid\<close> walks the characters in order.\<close>

fun decodeGridLoop ::
  "rounding \<Rightarrow> string \<Rightarrow> real \<times> real \<times> real \<times> real \<Rightarrow> real \<times> real \<times> real \<times> real" where
  "decodeGridLoop rd [] st = st"
| "decodeGridLoop rd (c # cs) (latLo, lngLo, latPlaceValue, lngPlaceValue) =
     (let codeIndex = indexOf CODE_ALPHABET [c];
          row = \<lfloor>rd (of_int codeIndex / of_int GRID_COLUMNS)\<rfloor>;
          col = jsRem (of_int codeIndex) (of_int GRID_COLUMNS);
          latPlaceValue' = rd (latPlaceValue / of_int GRID_ROWS);
          lngPlaceValue' = rd (lngPlaceValue / of_int GRID_COLUMNS)
      in decodeGridLoop rd cs
           (rd (latLo + rd (of_int row * latPlaceValue')),
            rd (lngLo + rd (col * lngPlaceValue')),
            latPlaceValue', lngPlaceValue'))"

definition decodeGrid :: "rounding \<Rightarrow> string \<Rightarrow> CodeArea" where
  "decodeGrid rd code =
     (let (latLo, lngLo, latPlaceValue, lngPlaceValue) =
            decodeGridLoop rd code (0, 0, GRID_SIZE_DEGREES rd, GRID_SIZE_DEGREES rd)
      in mkCodeArea rd latLo lngLo (rd (latLo + latPlaceValue)) (rd (lngLo + lngPlaceValue))
           (int (length code)))"

subsection \<open>The public codec\<close>

text \<open>\<^verbatim>\<open>encode(latitude, longitude, codeLength)\<close>. The result is \<open>None\<close> when the
  source does not return, \<open>Some (Inl e)\<close> when it throws.\<close>

definition encode :: "rounding \<Rightarrow> real \<Rightarrow> real \<Rightarrow> int \<Rightarrow> (error + string) option" where
  "encode rd latitude longitude len =
     (if len < 2 \<or> (len < SEPARATOR_POSITION \<and> len mod 2 = 1) then Some (Inl InvalidLength)
      else
        (case normalizeLongitude rd longitude of
           None \<Rightarrow> None
         | Some longitude' \<Rightarrow>
            (let latitude0 = clipLatitude latitude;
                 latitude' = (if latitude0 = 90
                              then rd (latitude0 - computeLatitudePrecision rd len)
                              else latitude0);
                 code = encodePairs rd latitude' longitude' (min len PAIR_CODE_LENGTH)
             in Some (Inr (if len > PAIR_CODE_LENGTH
                           then code @ encodeGrid rd latitude' longitude' (len - PAIR_CODE_LENGTH)
                           else code)))))"

definition decode :: "rounding \<Rightarrow> string \<Rightarrow> error + CodeArea" where
  "decode rd code =
     (if \<not> isFull code then Inl DecodeNotFull
      else
        (let code' = toUpperCase (removeFirstRun (CHR ''0'') (removeFirst (CHR ''+'') code));
             codeArea = decodePairs rd (substringTo code' PAIR_CODE_LENGTH)
         in if int (length code') \<le> PAIR_CODE_LENGTH then Inr codeArea
            else
              (let gridArea = decodeGrid rd (substringFrom code' PAIR_CODE_LENGTH)
               in Inr (mkCodeArea rd
                    (rd (latitudeLo codeArea + latitudeLo gridArea))
                    (rd (longitudeLo codeArea + longitudeLo gridArea))
                    (rd (latitudeLo codeArea + latitudeHi gridArea))
                    (rd (longitudeLo codeArea + longitudeHi gridArea))
                    (codeLength codeArea + codeLength gridArea)))))"

subsection \<open>Shortening and recovery\<close>

text \<open>\<^verbatim>\<open>recoverNearest(shortCode, referenceLatitude, referenceLongitude)\<close>. The
  exponent \<^verbatim>\<open>2 - (paddingLength / 2)\<close> is an integer, because the separator of a
  valid code sits at an even position. The two-argument call of \<^verbatim>\<open>encode\<close>
  takes the default length \<^verbatim>\<open>PAIR_CODE_LENGTH_\<close>.\<close>

definition recoverNearest ::
  "rounding \<Rightarrow> string \<Rightarrow> real \<Rightarrow> real \<Rightarrow> (error + string) option" where
  "recoverNearest rd shortCode referenceLatitude referenceLongitude =
     (if \<not> isShort shortCode then
        (if isFull shortCode then Some (Inr shortCode) else Some (Inl RecoverNotValid))
      else
        (let referenceLatitude' = clipLatitude referenceLatitude in
         case normalizeLongitude rd referenceLongitude of
           None \<Rightarrow> None
         | Some referenceLongitude' \<Rightarrow>
            (let shortCode' = toUpperCase shortCode;
                 paddingLength = SEPARATOR_POSITION - indexOf shortCode' SEPARATOR;
                 resolution = rd (20 powi (2 - paddingLength div 2));
                 areaToEdge = rd (resolution / 2);
                 roundedLatitude =
                   rd (of_int \<lfloor>rd (referenceLatitude' / resolution)\<rfloor> * resolution);
                 roundedLongitude =
                   rd (of_int \<lfloor>rd (referenceLongitude' / resolution)\<rfloor> * resolution)
             in case encode rd roundedLatitude roundedLongitude PAIR_CODE_LENGTH of
                  None \<Rightarrow> None
                | Some (Inl e) \<Rightarrow> Some (Inl e)
                | Some (Inr padded) \<Rightarrow>
                   (case decode rd (substringTo padded paddingLength @ shortCode') of
                      Inl e \<Rightarrow> Some (Inl e)
                    | Inr codeArea \<Rightarrow>
                       (let latDifference = rd (latitudeCenter codeArea - referenceLatitude');
                            latCenter =
                              (if latDifference > areaToEdge
                               then rd (latitudeCenter codeArea - resolution)
                               else if latDifference < - areaToEdge
                               then rd (latitudeCenter codeArea + resolution)
                               else latitudeCenter codeArea);
                            lngDifference = rd (longitudeCenter codeArea - referenceLongitude');
                            lngCenter =
                              (if lngDifference > areaToEdge
                               then rd (longitudeCenter codeArea - resolution)
                               else if lngDifference < - areaToEdge
                               then rd (longitudeCenter codeArea + resolution)
                               else longitudeCenter codeArea)
                        in encode rd latCenter lngCenter (codeLength codeArea))))))"

text \<open>The \<^verbatim>\<open>for\<close> loop of \<^verbatim>\<open>shorten\<close>, entered at
  \<^verbatim>\<open>i = PAIR_RESOLUTIONS_.length - 2\<close> and counting down to 1; \<open>rng\<close> is the source's \<^verbatim>\<open>range\<close>.\<close>

function shortenLoop :: "rounding \<Rightarrow> string \<Rightarrow> real \<Rightarrow> int \<Rightarrow> string" where
  "shortenLoop rd code rng i =
     (if i \<ge> 1 then
        (if rng < rd (pairResolution rd i * rd (3 / 10))
         then substringFrom code ((i + 1) * 2)
         else shortenLoop rd code rng (i - 1))
      else code)"
  by pat_completeness auto
termination
  by (relation "measure (\<lambda>(rd, code, rng, i). nat i)") auto

definition shorten ::
  "rounding \<Rightarrow> string \<Rightarrow> real \<Rightarrow> real \<Rightarrow> (error + string) option" where
  "shorten rd code latitude longitude =
     (if \<not> isFull code then Some (Inl ShortenNotFull)
      else if indexOf code PADDING_CHARACTER \<noteq> - 1 then Some (Inl ShortenPadded)
      else
        (let code' = toUpperCase code in
         case decode rd code' of
           Inl e \<Rightarrow> Some (Inl e)
         | Inr codeArea \<Rightarrow>
            (if codeLength codeArea < MIN_TRIMMABLE_CODE_LEN then Some (Inl ShortenTooShort)
             else
               (let latitude' = clipLatitude latitude in
                case normalizeLongitude rd longitude of
                  None \<Rightarrow> None
                | Some longitude' \<Rightarrow>
                   (let rng = max \<bar>rd (latitudeCenter codeArea - latitude')\<bar>
                                    \<bar>rd (longitudeCenter codeArea - longitude')\<bar>
                    in Some (Inr (shortenLoop rd code' rng
                                    (int (length (PAIR_RESOLUTIONS rd)) - 2))))))))"

subsection \<open>Canonical output\<close>

text \<open>A string is canonical when it holds only characters of the (upper-case)
  alphabet, the separator and the padding character.\<close>

definition canonicalChars :: "string \<Rightarrow> bool" where
  "canonicalChars s = list_all (\<lambda>c. c \<in> set (CODE_ALPHABET @ SEPARATOR @ PADDING_CHARACTER)) s"

declare normalizeLongitudeUp.simps [code]
declare normalizeLongitudeDown.simps [code]

section \<open>Properties\<close>

lemma isShort_imp_isValid: "isShort s \<Longrightarrow> isValid s"
  by (auto simp: isShort_def split: if_splits)

lemma isFull_imp_isValid: "isFull s \<Longrightarrow> isValid s"
  by (auto simp: isFull_def split: if_splits)

lemma isFull_not_isShort: "isFull s \<Longrightarrow> \<not> isShort s"
  by (auto simp: isFull_def split: if_splits)


subsection \<open>Output characters\<close>

declare encodePairsLoop.simps [simp del]
declare shortenLoop.simps [simp del]

lemma canonicalChars_append [simp]:
  "canonicalChars (xs @ ys) \<longleftrightarrow> canonicalChars xs \<and> canonicalChars ys"
  by (simp add: canonicalChars_def)

lemma canonicalChars_Nil [simp]: "canonicalChars []"
  by (simp add: canonicalChars_def)

lemma canonicalChars_charAt [simp]: "canonicalChars (charAt CODE_ALPHABET d)"
  by (auto simp: canonicalChars_def charAt_def)

lemma canonicalChars_SEPARATOR [simp]: "canonicalChars SEPARATOR"
  by (simp add: canonicalChars_def SEPARATOR_def)

lemma canonicalChars_padding [simp]: "canonicalChars (replicate n (CHR ''0''))"
  by (simp add: canonicalChars_def PADDING_CHARACTER_def list_all_iff)

lemma canonicalChars_drop: "canonicalChars s \<Longrightarrow> canonicalChars (drop n s)"
  by (auto simp: canonicalChars_def list_all_iff dest: in_set_dropD)

lemma encodePairsLoop_canonical:
  "canonicalChars code \<Longrightarrow> canonicalChars (encodePairsLoop rd len (code, lat, lng, n))"
proof (induction rd len "(code, lat, lng, n)" arbitrary: code lat lng n rule: encodePairsLoop.induct)
  case (1 rd len code lat lng n)
  show ?case
  proof (cases "n < len")
    case True
    then show ?thesis
      using "1.prems"
      by (subst encodePairsLoop.simps) (auto simp: Let_def intro!: "1.hyps")
  next
    case False
    then show ?thesis using "1.prems" by (subst encodePairsLoop.simps) simp
  qed
qed

lemma encodePairs_canonical: "canonicalChars (encodePairs rd lat lng len)"
  by (simp add: encodePairs_def Let_def encodePairsLoop_canonical)

lemma canonicalChars_charAtNumber [simp]: "canonicalChars (charAtNumber CODE_ALPHABET x)"
  by (cases x) simp_all

lemma encodeGridLoop_canonical:
  "canonicalChars code \<Longrightarrow> canonicalChars (encodeGridLoop rd n (code, lat, lng, p, q))"
  by (induction n arbitrary: code lat lng p q) (simp_all add: Let_def)

lemma encodeGrid_canonical: "canonicalChars (encodeGrid rd lat lng len)"
  by (simp add: encodeGrid_def encodeGridLoop_canonical)

lemma encode_canonical: "encode rd lat lng len = Some (Inr c) \<Longrightarrow> canonicalChars c"
  by (auto simp: encode_def Let_def encodePairs_canonical encodeGrid_canonical
      split: if_splits option.splits)

lemma shortenLoop_canonical:
  "canonicalChars code \<Longrightarrow> canonicalChars (shortenLoop rd code rng i)"
proof (induction rd code rng i rule: shortenLoop.induct)
  case (1 rd code rng i)
  then show ?case
    by (subst shortenLoop.simps) (auto simp: substringFrom_def canonicalChars_drop)
qed

lemma set_removeFirstRun: "set s \<subseteq> insert c (set (removeFirstRun c s))"
proof (induction s)
  case Nil
  then show ?case by simp
next
  case (Cons x xs)
  have "set xs \<subseteq> insert c (set (dropWhile (\<lambda>y. y = c) xs))"
    by (induction xs) auto
  with Cons show ?case by auto
qed

lemma indexOf_in_set: "indexOf s [c] \<noteq> - 1 \<Longrightarrow> c \<in> set s"
  by (induction s) (auto simp: Let_def split: if_splits)

lemma toUpperChar_fix [simp]: "toUpperChar (CHR ''+'') = CHR ''+''" "toUpperChar (CHR ''0'') = CHR ''0''"
  by (simp_all add: toUpperChar_def)

lemma validChars_canonical:
  assumes "validChars (removeFirstRun (CHR ''0'') (removeFirstRun (CHR ''+'') s))"
  shows "canonicalChars (toUpperCase s)"
proof -
  let ?t = "removeFirstRun (CHR ''0'') (removeFirstRun (CHR ''+'') s)"
  have sub: "set s \<subseteq> insert (CHR ''+'') (insert (CHR ''0'') (set ?t))"
    using set_removeFirstRun [of s "CHR ''+''"]
      set_removeFirstRun [of "removeFirstRun (CHR ''+'') s" "CHR ''0''"] by auto
  have "toUpperChar c \<in> set (CODE_ALPHABET @ SEPARATOR @ PADDING_CHARACTER)" if "c \<in> set s" for c
  proof -
    from that sub consider "c = CHR ''+''" | "c = CHR ''0''" | "c \<in> set ?t" by auto
    then show ?thesis
    proof cases
      case 3
      with assms have "[toUpperChar c] = SEPARATOR \<or> indexOf CODE_ALPHABET [toUpperChar c] \<noteq> - 1"
        by (auto simp: validChars_def list_all_iff)
      then show ?thesis
        by (auto simp: SEPARATOR_def dest: indexOf_in_set)
    qed (simp_all add: SEPARATOR_def PADDING_CHARACTER_def)
  qed
  then show ?thesis
    by (simp add: canonicalChars_def toUpperCase_def list_all_iff)
qed

lemma isValid_canonical: "isValid s \<Longrightarrow> canonicalChars (toUpperCase s)"
  by (rule validChars_canonical) (auto simp: isValid_def split: if_splits)

lemma shorten_canonical: "shorten rd code lat lng = Some (Inr c) \<Longrightarrow> canonicalChars c"
  by (auto simp: shorten_def Let_def split: if_splits sum.splits option.splits
      intro!: shortenLoop_canonical isValid_canonical isFull_imp_isValid)

lemma recoverNearest_short_canonical:
  "isShort s \<Longrightarrow> recoverNearest rd s lat lng = Some (Inr c) \<Longrightarrow> canonicalChars c"
  by (auto simp: recoverNearest_def Let_def split: if_splits sum.splits option.splits
      dest: encode_canonical)

lemma recoverNearest_full: "\<not> isShort s \<Longrightarrow> isFull s \<Longrightarrow> recoverNearest rd s lat lng = Some (Inr s)"
  by (simp add: recoverNearest_def)

subsection \<open>The validators\<close>

text \<open>C8: for every string, at most one of \<open>isShort\<close> and \<open>isFull\<close> holds, and
  whenever either holds so does \<open>isValid\<close>.\<close>

theorem validator_partition:
  "\<not> (isShort s \<and> isFull s) \<and> (isShort s \<or> isFull s \<longrightarrow> isValid s)"
  using isShort_imp_isValid isFull_imp_isValid isFull_not_isShort by blast

theorem validator_partition_witness:
  "isFull ''8FWC2345+'' \<and> \<not> isShort ''8FWC2345+'' \<and> isValid ''8FWC2345+''"
proof -
  have full: "isFull ''8FWC2345+''" by code_simp
  from validator_partition [of "''8FWC2345+''"] full
  have "\<not> isShort ''8FWC2345+'' \<and> isValid ''8FWC2345+''" by blast
  with full show ?thesis by blast
qed

text \<open>The code made of eight padding characters and the separator is rejected:
  it starts with the padding character, which the validator forbids (``Not
  allowed to start with them!'').\<close>

theorem isValid_padding_only_counterexample: "\<not> isValid ''00000000+''"
  by code_simp

text \<open>C6, as the code has it: \<open>isValid\<close> rejects every code whose first character
  is the padding character; a code that holds nothing but padding before the
  separator is among them.\<close>

theorem isValid_rejects_leading_padding: "\<not> isValid (CHR ''0'' # s)"
  by (simp add: isValid_def PADDING_CHARACTER_def)

theorem isValid_rejects_leading_padding_witness: "\<not> isValid ''0022+''"
  using isValid_rejects_leading_padding [of "''022+''"] .

subsection \<open>The length check of the encoder\<close>

lemma encode_InvalidLength_iff:
  "encode rd lat lng len = Some (Inl InvalidLength) \<longleftrightarrow>
     len < 2 \<or> (len < 8 \<and> len mod 2 = 1)"
  by (auto simp: encode_def SEPARATOR_POSITION_def Let_def split: option.splits)

text \<open>C4 at the length 9: the check compares with \<^verbatim>\<open>SEPARATOR_POSITION_\<close> (8),
  so the odd length 9 passes it, and the pair loop, which emits two digits a
  turn, returns a code of 10 digits.\<close>

theorem encode_length_9: "encode roundDouble 0 0 9 = Some (Inr ''6FG22222+22'')"
  by code_simp

subsection \<open>Case of the returned codes\<close>

text \<open>A valid full code in lower case comes back from \<open>recoverNearest\<close> as it
  went in.\<close>

theorem recoverNearest_lowercase_counterexample:
  "isFull ''8fvc9g8f+6x'' \<and> \<not> isShort ''8fvc9g8f+6x'' \<and>
   recoverNearest roundDouble ''8fvc9g8f+6x'' 0 0 = Some (Inr ''8fvc9g8f+6x'') \<and>
   toUpperCase ''8fvc9g8f+6x'' \<noteq> ''8fvc9g8f+6x''"
  by code_simp

text \<open>C9, as the code has it: \<open>encode\<close> and \<open>shorten\<close> return only upper-case
  alphabet characters, the separator and padding, and so does \<open>recoverNearest\<close>
  on a short code; a valid full code given to \<open>recoverNearest\<close> is returned
  unchanged, in the case it was written in.\<close>

theorem output_canonical:
  "(encode rd lat lng len = Some (Inr c) \<longrightarrow> canonicalChars c) \<and>
   (shorten rd code lat lng = Some (Inr c) \<longrightarrow> canonicalChars c) \<and>
   (isShort s \<and> recoverNearest rd s lat lng = Some (Inr c) \<longrightarrow> canonicalChars c) \<and>
   (\<not> isShort s \<and> isFull s \<longrightarrow> recoverNearest rd s lat lng = Some (Inr s))"
  using encode_canonical shorten_canonical recoverNearest_short_canonical recoverNearest_full
  by blast


theorem output_canonical_witness:
  "isFull ''8fvc9g8f+6x'' \<and> recoverNearest id ''8fvc9g8f+6x'' 1 2 = Some (Inr ''8fvc9g8f+6x'')"
proof -
  have full: "isFull ''8fvc9g8f+6x''" by code_simp
  then have "\<not> isShort ''8fvc9g8f+6x''" by (rule isFull_not_isShort)
  with full output_canonical [of id 1 2 10 "[]" "[]" "''8fvc9g8f+6x''"]
  have "recoverNearest id ''8fvc9g8f+6x'' 1 2 = Some (Inr ''8fvc9g8f+6x'')" by blast
  with full show ?thesis by blast
qed

subsection \<open>Evaluation in binary64\<close>

text \<open>Rules that let the simplifier run the model on numerals: a bound value is
  substituted once it is a number, a string, a pair or an area, and the rounding
  is unfolded on numerals only.\<close>

lemma bitlen_one [simp]: "bitlen 1 = 1"
  by (subst compute_bitlen) simp

lemma bitlen_Bit0 [simp]: "bitlen (numeral (Num.Bit0 n)) = bitlen (numeral n) + 1"
  by (subst compute_bitlen) simp

lemma bitlen_Bit1 [simp]: "bitlen (numeral (Num.Bit1 n)) = bitlen (numeral n) + 1"
  by (subst compute_bitlen) simp

lemma normalizeLongitude_inrange:
  "- 180 \<le> lng \<Longrightarrow> lng < 180 \<Longrightarrow> normalizeLongitude rd lng = Some lng"
  by (simp add: normalizeLongitude_def normalizeLongitudeUp.simps normalizeLongitudeDown.simps)

lemma Let_value:
  "Let (numeral a / numeral b :: real) f = f (numeral a / numeral b)"
  "Let (- (numeral a / numeral b) :: real) f = f (- (numeral a / numeral b))"
  "Let (1 / numeral b :: real) f = f (1 / numeral b)"
  "Let (- (1 / numeral b) :: real) f = f (- (1 / numeral b))"
  "Let (Number x) n = n (Number x)"
  "Let ([] :: string) g = g []"
  "Let (c # cs :: string) g = g (c # cs)"
  "Let (x, y) h = h (x, y)"
  "Let \<lparr>latitudeLo = a1, longitudeLo = a2, latitudeHi = a3, longitudeHi = a4,
        codeLength = a5, latitudeCenter = a6, longitudeCenter = a7\<rparr> k =
     k \<lparr>latitudeLo = a1, longitudeLo = a2, latitudeHi = a3, longitudeHi = a4,
        codeLength = a5, latitudeCenter = a6, longitudeCenter = a7\<rparr>"
  by (simp_all add: Let_def)

lemma encodeGridLoop_numeral:
  "encodeGridLoop rd (numeral k) (code, adjustedLatitude, adjustedLongitude, latPlaceValue, lngPlaceValue) =
     (let row = numFloor (numDivide rd adjustedLatitude (rd (latPlaceValue / of_int GRID_ROWS)));
          col = numFloor (numDivide rd adjustedLongitude (rd (lngPlaceValue / of_int GRID_COLUMNS)));
          latPlaceValue' = rd (latPlaceValue / of_int GRID_ROWS);
          lngPlaceValue' = rd (lngPlaceValue / of_int GRID_COLUMNS);
          adjustedLatitude' = numMinus rd adjustedLatitude (numTimes rd row latPlaceValue');
          adjustedLongitude' = numMinus rd adjustedLongitude (numTimes rd col lngPlaceValue')
      in encodeGridLoop rd (pred_numeral k)
           (code @ charAtNumber CODE_ALPHABET
                     (numPlus rd (numTimes rd row (of_int GRID_COLUMNS)) col),
            adjustedLatitude', adjustedLongitude', latPlaceValue', lngPlaceValue'))"
  by (simp add: numeral_eq_Suc)

lemma replicate_numeral_eval: "replicate (numeral k) x = x # replicate (pred_numeral k) x"
  by (simp add: numeral_eq_Suc)

lemmas roundDouble_eval =
  roundDouble_def [of "numeral a / numeral b" for a b]
  roundDouble_def [of "- (numeral a / numeral b)" for a b]
  roundDouble_def [of "1 / numeral b" for b]
  roundDouble_def [of "- (1 / numeral b)" for b]
  roundDouble_def [of "numeral a" for a]
  roundDouble_def [of "- numeral a" for a]
  roundDouble_def [of 0] roundDouble_def [of 1] roundDouble_def [of "- 1"]

lemmas binExp_eval =
  binExp_def [of "numeral a / numeral b" for a b]
  binExp_def [of "- (numeral a / numeral b)" for a b]
  binExp_def [of "1 / numeral b" for b]
  binExp_def [of "- (1 / numeral b)" for b]
  binExp_def [of "numeral a" for a]
  binExp_def [of "- numeral a" for a]
  binExp_def [of 1] binExp_def [of "- 1"]

lemmas eval_congs = let_weak_cong prod.case_cong_weak option.case_cong_weak sum.case_cong_weak

lemmas eval_simps = roundDouble_eval binExp_eval encode_def encodePairs_def encodeGrid_def
  encodePairsLoop.simps encodeGridLoop_numeral clipLatitude_def computeLatitudePrecision_def
  pairResolution_def PAIR_RESOLUTIONS_def GRID_SIZE_DEGREES_def SEPARATOR_POSITION_def
  PAIR_CODE_LENGTH_def LATITUDE_MAX_def LONGITUDE_MAX_def GRID_ROWS_def GRID_COLUMNS_def
  CODE_ALPHABET_def charAt_def SEPARATOR_def PADDING_CHARACTER_def jsRem_def
  normalizeLongitude_inrange Let_value replicate_numeral_eval
  decode_def decodePairs_def decodePairsSequence_def decodePairsSequenceLoop.simps
  decodeGrid_def mkCodeArea_def toUpperCase_def toUpperChar_def substringTo_def substringFrom_def
  shorten_def shortenLoop.simps recoverNearest_def MIN_TRIMMABLE_CODE_LEN_def

text \<open>The grid loop at a place value that underflows, here the least positive
  binary64 number: a positive coordinate divided by the zero place value is
  Infinity, and \<^verbatim>\<open>charAt(Infinity)\<close> adds nothing; the coordinate is NaN from
  then on, and \<^verbatim>\<open>charAt(NaN)\<close> adds the first character of the alphabet. A zero
  coordinate is NaN at once.\<close>

lemma encodeGridLoop_underflow:
  "encodeGridLoop roundDouble 3 (''X'', Number (1 / 2 ^ 1074), Number 0, 1 / 2 ^ 1074, 1) = ''X22'' \<and>
   encodeGridLoop roundDouble 2 (''X'', Number 0, Number (1 / 8), 1 / 2 ^ 1074, 1) = ''X22''"
  by (simp add: eval_simps cong: eval_congs)

subsection \<open>The trimming loop of the shortener\<close>

lemma shortenLoop_3:
  "shortenLoop rd code rng 3 =
     (if rng < rd (pairResolution rd 3 * rd (3 / 10)) then drop 8 code
      else if rng < rd (pairResolution rd 2 * rd (3 / 10)) then drop 6 code
      else if rng < rd (pairResolution rd 1 * rd (3 / 10)) then drop 4 code
      else code)"
  by (simp add: shortenLoop.simps [of rd code rng 3] shortenLoop.simps [of rd code rng 2]
      shortenLoop.simps [of rd code rng 1] shortenLoop.simps [of rd code rng 0] substringFrom_def)


text \<open>The code \<^verbatim>\<open>9C3W9QCJ+2VX\<close> and its decoded area, in binary64.\<close>

lemma isFull_9C3W9QCJ_2VX: "isFull ''9C3W9QCJ+2VX''"
  by code_simp

lemma unpadded_9C3W9QCJ_2VX: "indexOf ''9C3W9QCJ+2VX'' PADDING_CHARACTER = - 1"
  by code_simp

lemma upper_9C3W9QCJ_2VX: "toUpperCase ''9C3W9QCJ+2VX'' = ''9C3W9QCJ+2VX''"
  by code_simp

lemma decode_9C3W9QCJ_2VX:
  "decode roundDouble ''9C3W9QCJ+2VX'' =
    Inr \<lparr>latitudeLo = 1807424712640509 / 35184372088832,
        longitudeLo = - (2742199591859371 / 2251799813685248),
        latitudeHi = 1807425592249811 / 35184372088832,
        longitudeHi = - (5484258446230387 / 4503599627370496),
        codeLength = 11, latitudeCenter = 225928144055645 / 4398046511104,
        longitudeCenter = - (1371082203743641 / 1125899906842624)\<rparr>"
  by (simp add: isFull_9C3W9QCJ_2VX eval_simps cong: eval_congs)

text \<open>The reference point \<open>(51.3701125, -1.217765625)\<close>, as binary64 reads it.\<close>

lemma reference_latitude:
  "roundDouble (513701125 / 10000000) = 7229700609780639 / 140737488355328"
  by (simp add: eval_simps cong: eval_congs)

lemma reference_longitude:
  "roundDouble (- 1217765625 / 1000000000) = - (5484328814974599 / 4503599627370496)"
  by (simp add: eval_simps cong: eval_congs)

text \<open>With the reference at the centre of \<^verbatim>\<open>9C3W9QCJ+2VX\<close> the distance is below
  \<^verbatim>\<open>PAIR_RESOLUTIONS_[4] * 0.3\<close>; a loop entered at \<open>i = 4\<close> would cut 10
  characters and leave \<^verbatim>\<open>VX\<close>, the code cuts 8.\<close>

theorem shorten_loop_counterexample:
  "shorten roundDouble ''9C3W9QCJ+2VX''
       (roundDouble (513701125 / 10000000)) (roundDouble (- 1217765625 / 1000000000))
     = Some (Inr ''+2VX'') \<and>
   max \<bar>roundDouble (latitudeCenter (projr (decode roundDouble ''9C3W9QCJ+2VX''))
            - roundDouble (513701125 / 10000000))\<bar>
       \<bar>roundDouble (longitudeCenter (projr (decode roundDouble ''9C3W9QCJ+2VX''))
            - roundDouble (- 1217765625 / 1000000000))\<bar>
     < roundDouble (pairResolution roundDouble 4 * roundDouble (3 / 10)) \<and>
   substringFrom ''9C3W9QCJ+2VX'' (2 * (4 + 1)) = ''VX''"
proof -
  note full = isFull_9C3W9QCJ_2VX and nopad = unpadded_9C3W9QCJ_2VX
    and dec = decode_9C3W9QCJ_2VX and lat = reference_latitude and lng = reference_longitude
  have sh: "shorten roundDouble ''9C3W9QCJ+2VX''
       (7229700609780639 / 140737488355328) (- (5484328814974599 / 4503599627370496))
     = Some (Inr ''+2VX'')"
    unfolding shorten_def
    by (simp add: full nopad dec eval_simps cong: eval_congs)
  have rng: "max \<bar>roundDouble (225928144055645 / 4398046511104 - 7229700609780639 / 140737488355328)\<bar>
       \<bar>roundDouble (- (1371082203743641 / 1125899906842624) - - (5484328814974599 / 4503599627370496))\<bar>
     < roundDouble (pairResolution roundDouble 4 * roundDouble (3 / 10))"
    by (simp add: eval_simps cong: eval_congs)
  have sub: "substringFrom ''9C3W9QCJ+2VX'' (2 * (4 + 1)) = ''VX''"
    by (simp add: substringFrom_def)
  from sh rng sub show ?thesis
    by (simp only: dec lat lng sum.sel CodeArea.simps)
qed

text \<open>C5, as the code has it: the loop is entered at
  \<^verbatim>\<open>i = PAIR_RESOLUTIONS_.length - 2 = 3\<close> and runs down to 1; at the first \<open>i\<close>
  with \<^verbatim>\<open>range < PAIR_RESOLUTIONS_[i] * 0.3\<close> the upper-cased code is returned
  without its first \<open>2 * (i + 1)\<close> characters. So, given a full code without
  padding whose decoded length is at least \<^verbatim>\<open>MIN_TRIMMABLE_CODE_LEN_\<close> and a
  reference whose longitude normalises, \<open>shorten\<close> returns: the upper-cased code
  without its first 8, 6 or 4 characters, by the first of the three bounds the
  range is below, and the upper-cased code whole when it is below none.\<close>

theorem shorten_trims:
  assumes "isFull code" and "indexOf code PADDING_CHARACTER = - 1"
    and "decode rd (toUpperCase code) = Inr area"
    and "MIN_TRIMMABLE_CODE_LEN \<le> codeLength area"
    and "normalizeLongitude rd lng = Some lng'"
  shows "shorten rd code lat lng = Some (Inr
     (let rng = max \<bar>rd (latitudeCenter area - clipLatitude lat)\<bar>
                    \<bar>rd (longitudeCenter area - lng')\<bar>
      in if rng < rd (pairResolution rd 3 * rd (3 / 10)) then drop 8 (toUpperCase code)
         else if rng < rd (pairResolution rd 2 * rd (3 / 10)) then drop 6 (toUpperCase code)
         else if rng < rd (pairResolution rd 1 * rd (3 / 10)) then drop 4 (toUpperCase code)
         else toUpperCase code))"
  using assms by (simp add: shorten_def Let_def PAIR_RESOLUTIONS_def shortenLoop_3)

text \<open>The four outcomes, at four references for the same code: 8, 6 and 4
  characters removed, and the code returned whole.\<close>

theorem shorten_trims_witness:
  "isFull ''9C3W9QCJ+2VX'' \<and> indexOf ''9C3W9QCJ+2VX'' PADDING_CHARACTER = - 1 \<and>
   MIN_TRIMMABLE_CODE_LEN \<le> codeLength (projr (decode roundDouble (toUpperCase ''9C3W9QCJ+2VX''))) \<and>
   shorten roundDouble ''9C3W9QCJ+2VX''
       (7229700609780639 / 140737488355328) (- (5484328814974599 / 4503599627370496))
     = Some (Inr ''+2VX'') \<and>
   shorten roundDouble ''9C3W9QCJ+2VX'' (411 / 8) (- (39 / 32)) = Some (Inr ''CJ+2VX'') \<and>
   shorten roundDouble ''9C3W9QCJ+2VX'' (103 / 2) (- (5 / 4)) = Some (Inr ''9QCJ+2VX'') \<and>
   shorten roundDouble ''9C3W9QCJ+2VX'' 0 0 = Some (Inr ''9C3W9QCJ+2VX'')"
proof -
  note full = isFull_9C3W9QCJ_2VX and nopad = unpadded_9C3W9QCJ_2VX
  have dec: "decode roundDouble (toUpperCase ''9C3W9QCJ+2VX'') =
    Inr \<lparr>latitudeLo = 1807424712640509 / 35184372088832,
        longitudeLo = - (2742199591859371 / 2251799813685248),
        latitudeHi = 1807425592249811 / 35184372088832,
        longitudeHi = - (5484258446230387 / 4503599627370496),
        codeLength = 11, latitudeCenter = 225928144055645 / 4398046511104,
        longitudeCenter = - (1371082203743641 / 1125899906842624)\<rparr>"
    by (simp only: upper_9C3W9QCJ_2VX decode_9C3W9QCJ_2VX)
  have len: "MIN_TRIMMABLE_CODE_LEN \<le> codeLength
      \<lparr>latitudeLo = 1807424712640509 / 35184372088832,
        longitudeLo = - (2742199591859371 / 2251799813685248),
        latitudeHi = 1807425592249811 / 35184372088832,
        longitudeHi = - (5484258446230387 / 4503599627370496),
        codeLength = 11, latitudeCenter = 225928144055645 / 4398046511104,
        longitudeCenter = - (1371082203743641 / 1125899906842624)\<rparr>"
    by (simp add: MIN_TRIMMABLE_CODE_LEN_def)
  have n1: "normalizeLongitude roundDouble (- (5484328814974599 / 4503599627370496))
      = Some (- (5484328814974599 / 4503599627370496))"
    by (simp add: normalizeLongitude_inrange)
  have n2: "normalizeLongitude roundDouble (- (39 / 32)) = Some (- (39 / 32))"
    by (simp add: normalizeLongitude_inrange)
  have n3: "normalizeLongitude roundDouble (- (5 / 4)) = Some (- (5 / 4))"
    by (simp add: normalizeLongitude_inrange)
  have n4: "normalizeLongitude roundDouble 0 = Some 0"
    by (simp add: normalizeLongitude_inrange)
  have s1: "shorten roundDouble ''9C3W9QCJ+2VX''
       (7229700609780639 / 140737488355328) (- (5484328814974599 / 4503599627370496))
     = Some (Inr ''+2VX'')"
    by (subst shorten_trims [OF full nopad dec len n1])
      (simp add: upper_9C3W9QCJ_2VX eval_simps cong: eval_congs)
  have s2: "shorten roundDouble ''9C3W9QCJ+2VX'' (411 / 8) (- (39 / 32)) = Some (Inr ''CJ+2VX'')"
    by (subst shorten_trims [OF full nopad dec len n2])
      (simp add: upper_9C3W9QCJ_2VX eval_simps cong: eval_congs)
  have s3: "shorten roundDouble ''9C3W9QCJ+2VX'' (103 / 2) (- (5 / 4)) = Some (Inr ''9QCJ+2VX'')"
    by (subst shorten_trims [OF full nopad dec len n3])
      (simp add: upper_9C3W9QCJ_2VX eval_simps cong: eval_congs)
  have s4: "shorten roundDouble ''9C3W9QCJ+2VX'' 0 0 = Some (Inr ''9C3W9QCJ+2VX'')"
    by (subst shorten_trims [OF full nopad dec len n4])
      (simp add: upper_9C3W9QCJ_2VX eval_simps cong: eval_congs)
  from full nopad len s1 s2 s3 s4 show ?thesis
    by (simp only: dec sum.sel simp_thms)
qed

subsection \<open>The encoder in binary64\<close>

text \<open>C1 at the origin: the literal \<^verbatim>\<open>0.000125\<close> is read as the binary64 number
  \<open>4611686018427388 / 2\<^sup>6\<^sup>5\<close>, which is above \<open>1 / 8000\<close>; so \<^verbatim>\<open>(0 + 90) % 0.000125\<close>
  is not 0 but just below \<^verbatim>\<open>0.000125\<close>, the grid digit comes out as the last cell
  (\<^verbatim>\<open>X\<close>) instead of the first, and the decoded area lies to the north-east of
  the encoded point.\<close>

theorem encode_origin_double:
  "encode roundDouble 0 0 11 = Some (Inr ''6FG22222+22X'') \<and>
   decode roundDouble ''6FG22222+22X'' =
     Inr \<lparr>latitudeLo = 7378697629483821 / 73786976294838206464,
          longitudeLo = 3458764513820541 / 36893488147419103232,
          latitudeHi = 1152921504606847 / 9223372036854775808,
          longitudeHi = 1152921504606847 / 9223372036854775808,
          codeLength = 11,
          latitudeCenter = 4150517416584649 / 36893488147419103232,
          longitudeCenter = 8070450532247929 / 73786976294838206464\<rparr>"
proof -
  have full: "isFull ''6FG22222+22X''" by code_simp
  have enc: "encode roundDouble 0 0 11 = Some (Inr ''6FG22222+22X'')"
    by (simp add: eval_simps cong: eval_congs)
  have dec: "decode roundDouble ''6FG22222+22X'' =
     Inr \<lparr>latitudeLo = 7378697629483821 / 73786976294838206464,
          longitudeLo = 3458764513820541 / 36893488147419103232,
          latitudeHi = 1152921504606847 / 9223372036854775808,
          longitudeHi = 1152921504606847 / 9223372036854775808,
          codeLength = 11,
          latitudeCenter = 4150517416584649 / 36893488147419103232,
          longitudeCenter = 8070450532247929 / 73786976294838206464\<rparr>"
    by (simp add: full eval_simps cong: eval_congs)
  from enc dec show ?thesis by blast
qed

text \<open>C7 at the pole with 25 digits: \<^verbatim>\<open>90 - computeLatitudePrecision(25)\<close> is 90
  again in binary64, the first digit is computed from \<open>180 / 20 = 9\<close>, and the
  decoder rejects the code.\<close>

theorem encode_pole_double:
  "encode roundDouble 90 0 25 = Some (Inr ''FF222222+22XXXXXXXXXXXXXXX'') \<and>
   decode roundDouble ''FF222222+22XXXXXXXXXXXXXXX'' = Inl DecodeNotFull"
proof -
  have notfull: "\<not> isFull ''FF222222+22XXXXXXXXXXXXXXX''" by code_simp
  have enc: "encode roundDouble 90 0 25 = Some (Inr ''FF222222+22XXXXXXXXXXXXXXX'')"
    by (simp add: eval_simps cong: eval_congs)
  from enc notfull show ?thesis by (simp add: decode_def)
qed

text \<open>C10 at the pole with 26 digits: the code returned is not a full code.\<close>

theorem encode_pole_not_full:
  "encode roundDouble 90 1 26 = Some (Inr ''FF232222+22XXXXXXXXXXXXXXX5'') \<and>
   \<not> isFull ''FF232222+22XXXXXXXXXXXXXXX5''"
proof -
  have notfull: "\<not> isFull ''FF232222+22XXXXXXXXXXXXXXX5''" by code_simp
  have enc: "encode roundDouble 90 1 26 = Some (Inr ''FF232222+22XXXXXXXXXXXXXXX5'')"
    by (simp add: eval_simps cong: eval_congs)
  from enc notfull show ?thesis by blast
qed

subsection \<open>Round trips: the inputs on which they fail\<close>

text \<open>The validator lets a padding run stand anywhere before the separator;
  the decoder drops the run, and the encoder puts it back before the separator.\<close>

theorem roundtrip_counterexample:
  "isFull ''22002222+'' \<and> toUpperCase ''22002222+'' = ''22002222+'' \<and>
   encode roundDouble (latitudeCenter (projr (decode roundDouble ''22002222+'')))
     (longitudeCenter (projr (decode roundDouble ''22002222+'')))
     (codeLength (projr (decode roundDouble ''22002222+''))) = Some (Inr ''22222200+'')"
proof -
  have full: "isFull ''22002222+''" by code_simp
  have up: "toUpperCase ''22002222+'' = ''22002222+''" by code_simp
  have dec: "decode roundDouble ''22002222+'' =
    Inr \<lparr>latitudeLo = - 90, longitudeLo = - 180,
        latitudeHi = - (6329668538780877 / 70368744177664),
        longitudeHi = - (3165713878692659 / 17592186044416), codeLength = 6,
        latitudeCenter = - (3165713878692659 / 35184372088832),
        longitudeCenter = - (6332307366687539 / 35184372088832)\<rparr>"
    by (simp add: full eval_simps cong: eval_congs)
  have enc: "encode roundDouble (- (3165713878692659 / 35184372088832))
      (- (6332307366687539 / 35184372088832)) 6 = Some (Inr ''22222200+'')"
    by (simp add: eval_simps cong: eval_congs)
  from full up enc show ?thesis
    by (simp only: dec sum.sel CodeArea.simps)
qed

text \<open>A full code in lower case is shortened and recovered in upper case.\<close>

theorem shorten_recover_counterexample:
  "isFull ''9c3w9qcj+2vx'' \<and>
   shorten roundDouble ''9c3w9qcj+2vx''
       (roundDouble (513701125 / 10000000)) (roundDouble (- 1217765625 / 1000000000))
     = Some (Inr ''+2VX'') \<and>
   recoverNearest roundDouble ''+2VX''
       (roundDouble (513701125 / 10000000)) (roundDouble (- 1217765625 / 1000000000))
     = Some (Inr ''9C3W9QCJ+2VX'')"
proof -
  have full: "isFull ''9c3w9qcj+2vx''" by code_simp
  note fullU = isFull_9C3W9QCJ_2VX and dec = decode_9C3W9QCJ_2VX
    and lat = reference_latitude and lng = reference_longitude
  have short: "isShort ''+2VX''" by code_simp
  have nopad: "indexOf ''9c3w9qcj+2vx'' PADDING_CHARACTER = - 1" by code_simp
  have up: "toUpperCase ''9c3w9qcj+2vx'' = ''9C3W9QCJ+2VX''" by code_simp
  have sep: "indexOf ''+2VX'' SEPARATOR = 0" by code_simp
  have up2: "toUpperCase ''+2VX'' = ''+2VX''" by code_simp
  have sh: "shorten roundDouble ''9c3w9qcj+2vx''
       (7229700609780639 / 140737488355328) (- (5484328814974599 / 4503599627370496))
     = Some (Inr ''+2VX'')"
    unfolding shorten_def up
    by (simp add: full fullU nopad dec eval_simps cong: eval_congs)
  have rec: "recoverNearest roundDouble ''+2VX''
       (7229700609780639 / 140737488355328) (- (5484328814974599 / 4503599627370496))
     = Some (Inr ''9C3W9QCJ+2VX'')"
    unfolding recoverNearest_def up2 sep
    by (simp add: short fullU dec eval_simps cong: eval_congs)
  from full sh rec show ?thesis
    by (simp only: lat lng)
qed

end
